theory Spec2Isabelle
  imports Complex_Main "HOL-Library.Word" "HOL-Library.Sublist"
begin

section \<open>The etcd minion of gru (minion/etcd.go)\<close>

text \<open>
  The minion agent talks to etcd through the \<open>KeysAPI\<close> interface, to its workers
  through one unbuffered task channel and one done channel, and to the rest of the
  repository through the task codec, the catalog and the classifier registry. The
  embedding keeps the functions of \<open>minion/etcd.go\<close> one by one. Everything the file does
  to the outside is appended to a trace of events; the answers of the outside (etcd, the
  clock, the scheduler's choice in a \<open>select\<close>) are inputs.
\<close>

subsection \<open>Errors, nodes and responses of the etcd client\<close>

text \<open>
  A Go \<open>error\<close> value is either an \<open>etcdclient.Error\<close>, of which the code reads the
  field \<open>Code\<close>, or an error of any other dynamic type (a cluster error, a cancelled
  context, a JSON syntax error).
\<close>

datatype err = EtcdError (Code: nat) | OtherError string

definition ErrorCodeKeyNotFound :: nat where
  "ErrorCodeKeyNotFound = 100"

datatype node = EtcdNode (Key: string) (Val: string) (Nodes: "node list")

datatype response = Response (Action: string) (Node: node)

record get_options =
  Recursive :: bool
  Sort :: bool

datatype prev_exist = PrevIgnore | PrevExist | PrevNoExist

text \<open>\<open>TTL\<close> is in seconds, 0 when the option is not set.\<close>

record set_options =
  PrevExistOpt :: prev_exist
  TTL :: nat

text \<open>
  \<open>KeysAPI\<close> is an interface: the minion is written against any implementation. An
  implementation acts on a store of type \<open>'k\<close>; a call returns Go's pair of a response
  pointer (\<open>None\<close> is nil) and an error (\<open>None\<close> is nil). The code never reads the
  response of \<open>Set\<close> or \<open>Delete\<close>.
\<close>

record 'k KeysAPI =
  Get :: "string \<Rightarrow> get_options \<Rightarrow> 'k \<Rightarrow> (response option \<times> err option) \<times> 'k"
  Set :: "string \<Rightarrow> string \<Rightarrow> set_options \<Rightarrow> 'k \<Rightarrow> err option \<times> 'k"
  Delete :: "string \<Rightarrow> 'k \<Rightarrow> err option \<times> 'k"

subsection \<open>Library functions the minion calls\<close>

unbundle bit_operations_syntax

type_synonym int64 = "64 word"

text \<open>
  \<open>strconv.FormatInt(i, base)\<close>: a minus sign for a negative \<open>i\<close>, then the digits of
  its magnitude, most significant first. The magnitude of a negative \<open>int64\<close> is taken as
  \<open>uint64(-i)\<close>, which is right for the least \<open>int64\<close> too.
\<close>

definition digit_chars :: string where
  "digit_chars = ''0123456789abcdefghijklmnopqrstuvwxyz''"

function formatBits :: "nat \<Rightarrow> nat \<Rightarrow> string" where
  "formatBits u base =
     (if base < 2 \<or> u < base then [digit_chars ! u]
      else formatBits (u div base) base @ [digit_chars ! (u mod base)])"
  by pat_completeness auto
termination
  by (relation "measure (\<lambda>(u, base). u)") auto

declare formatBits.simps [simp del]

definition FormatInt :: "int64 \<Rightarrow> nat \<Rightarrow> string" where
  "FormatInt i base =
     (if i <s 0 then CHR ''-'' # formatBits (unat (- i)) base
      else formatBits (unat i) base)"

text \<open>\<open>strings.Join(elems, sep)\<close>.\<close>

fun strings_Join :: "string list \<Rightarrow> string \<Rightarrow> string" where
  "strings_Join [] sep = []"
| "strings_Join [e] sep = e"
| "strings_Join (e # es) sep = e @ sep @ strings_Join es sep"

text \<open>
  \<open>filepath.Clean\<close> on a Unix path, element by element: empty elements and \<open>.\<close> are
  dropped, \<open>..\<close> removes the element before it, is dropped at the root and is kept at
  the front of a relative path. \<open>split_path\<close> cuts a path at every slash.
\<close>

fun split_path :: "string \<Rightarrow> string list" where
  "split_path [] = [[]]"
| "split_path (c # cs) =
     (if c = CHR ''/'' then [] # split_path cs
      else (case split_path cs of
              [] \<Rightarrow> [[c]]
            | e # es \<Rightarrow> (c # e) # es))"

fun clean_elems :: "bool \<Rightarrow> string list \<Rightarrow> string list \<Rightarrow> string list" where
  "clean_elems rooted out [] = out"
| "clean_elems rooted out (e # es) =
     (if e = [] \<or> e = ''.'' then clean_elems rooted out es
      else if e = ''..'' then
        (if out \<noteq> [] \<and> last out \<noteq> ''..'' then clean_elems rooted (butlast out) es
         else if \<not> rooted then clean_elems rooted (out @ [''..'']) es
         else clean_elems rooted out es)
      else clean_elems rooted (out @ [e]) es)"

definition Clean :: "string \<Rightarrow> string" where
  "Clean path =
     (if path = [] then ''.''
      else
        let rooted = (hd path = CHR ''/'');
            out = clean_elems rooted [] (split_path path)
        in if rooted then CHR ''/'' # strings_Join out ''/''
           else if out = [] then ''.''
           else strings_Join out ''/'')"

text \<open>
  \<open>filepath.Join\<close>: leading empty elements are skipped, the rest is joined with slashes
  and cleaned; with no non-empty element the result is empty.
\<close>

fun Join :: "string list \<Rightarrow> string" where
  "Join [] = []"
| "Join (e # es) = (if e \<noteq> [] then Clean (strings_Join (e # es) ''/'') else Join es)"

text \<open>
  \<open>uuid.UUID\<close> is a byte slice. \<open>String\<close> gives the empty string unless it has 16 bytes,
  and otherwise the lower-case hexadecimal form
  \<open>xxxxxxxx-xxxx-xxxx-xxxx-xxxxxxxxxxxx\<close>.
\<close>

type_synonym uuid = "8 word list"

definition hexdigits :: string where
  "hexdigits = ''0123456789abcdef''"

definition hex_byte :: "8 word \<Rightarrow> string" where
  "hex_byte b = [hexdigits ! unat (drop_bit 4 b), hexdigits ! unat (b AND 15)]"

definition hex_encode :: "8 word list \<Rightarrow> string" where
  "hex_encode bs = concat (map hex_byte bs)"

definition uuid_String :: "uuid \<Rightarrow> string" where
  "uuid_String u =
     (if length u \<noteq> 16 then []
      else hex_encode (take 4 u) @ ''-'' @ hex_encode (take 2 (drop 4 u)) @ ''-'' @
           hex_encode (take 2 (drop 6 u)) @ ''-'' @ hex_encode (take 2 (drop 8 u)) @ ''-'' @
           hex_encode (drop 10 u))"

text \<open>
  \<open>strings.ToLower\<close> and \<open>strings.EqualFold\<close> on the bytes of a string. Only the ASCII
  letters are mapped: the code compares with the word \<open>delete\<close>, and no character outside
  ASCII lower-cases or folds to one of the letters d, e, l, t.
\<close>

definition to_lower_char :: "char \<Rightarrow> char" where
  "to_lower_char c =
     (if 65 \<le> (of_char c :: nat) \<and> (of_char c :: nat) \<le> 90
      then char_of ((of_char c :: nat) + 32) else c)"

definition ToLower :: "string \<Rightarrow> string" where
  "ToLower s = map to_lower_char s"

fun EqualFold :: "string \<Rightarrow> string \<Rightarrow> bool" where
  "EqualFold [] [] = True"
| "EqualFold (a # as) (b # bs) = (to_lower_char a = to_lower_char b \<and> EqualFold as bs)"
| "EqualFold _ _ = False"

subsection \<open>Tasks, catalogs and classifiers\<close>

text \<open>
  Modelled from the spec: the packages \<open>task\<close>, \<open>catalog\<close> and \<open>classifier\<close> are not in
  the source files at hand. A task has a task-id, a catalog, the flag is-concurrent, a
  state among queued, processing, success and failed, two times in epoch seconds and a
  result string. A catalog is an opaque executable that runs to completion, writes
  its output to a sink and returns success or failure: \<open>Run_output\<close> is what a run
  writes and \<open>Run_error\<close> what it returns. A classifier is a key with a value.
\<close>

datatype task_state = TaskStateQueued | TaskStateProcessing | TaskStateSuccess | TaskStateFailed

record catalog =
  Len :: nat
  Run_output :: string
  Run_error :: "err option"

record task =
  TaskID :: uuid
  Catalog :: catalog
  IsConcurrent :: bool
  State :: task_state
  TimeReceived :: int64
  TimeProcessed :: int64
  Result :: string

record classifier =
  CKey :: string
  CValue :: string

text \<open>
  The struct \<open>backoff.Backoff\<close> as the file fills it in: a minimum and a maximum
  duration, in nanoseconds, a factor, and the flag for jitter. What the generator keeps
  between calls is private to its package; it is one number here, zero in a struct
  literal.
\<close>

record Backoff =
  Min_dur :: int
  Max_dur :: int
  Factor :: rat
  Jitter :: bool
  internal :: nat

definition Second :: int where
  "Second = 1000000000"

definition Minute :: int where
  "Minute = 60 * Second"

text \<open>
  What the file takes from other packages, as parameters: \<open>utils.GenerateUUID\<close>, the
  JSON codec at the types it is used at, the classifier registry with its keys in the
  order the \<open>range\<close> loop meets them, and the two methods of the backoff generator.
  \<open>json.Unmarshal\<close> fills a task pointer that the payload may set to nil, and returns an
  error; \<open>json.Marshal\<close> returns the data and an error. \<open>Duration\<close> returns a delay and
  changes the generator; it is given the sample between 0 and 1 that it draws from
  \<open>math/rand\<close> in that call.
\<close>

record libs =
  GenerateUUID :: "string \<Rightarrow> uuid"
  json_Unmarshal_Task :: "string \<Rightarrow> task option \<times> err option"
  json_Marshal_Task :: "task \<Rightarrow> string \<times> err option"
  json_Marshal_Classifier :: "classifier \<Rightarrow> string \<times> err option"
  Registry :: "string list"
  classifier_Get :: "string \<Rightarrow> err + classifier"
  backoff_Duration :: "Backoff \<Rightarrow> rat \<Rightarrow> int \<times> Backoff"
  backoff_Reset :: "Backoff \<Rightarrow> Backoff"

subsection \<open>The minion and the world it runs in\<close>

definition EtcdMinionSpace :: string where
  "EtcdMinionSpace = ''/gru/minion''"

text \<open>
  The struct \<open>etcdMinion\<close>. Its two channels, \<open>taskQueue\<close> and \<open>done\<close>, are part of the
  world below: what matters of a channel here is whether it has been closed.
\<close>

record 'k etcdMinion =
  name :: string
  rootDir :: string
  queueDir :: string
  logDir :: string
  classifierDir :: string
  id :: uuid
  kapi :: "'k KeysAPI"

text \<open>
  What a \<open>go\<close> statement of the file starts: one of the five workers of \<open>Serve\<close>, or
  \<open>processTask\<close> on a task.
\<close>

datatype goroutine =
    GoClassify
  | GoCheckQueue
  | GoPeriodicRunner
  | GoTaskRunner
  | GoTaskListener
  | GoProcessTask task

datatype event =
    KVGet string get_options
  | KVSet string string set_options "err option"
  | KVDelete string "err option"
  | ChanSend "task option"
  | ChanRecv "task option"
  | CatalogRun uuid
  | Go goroutine
  | Sleep int
  | Log string

text \<open>
  The world: the store behind the \<open>KeysAPI\<close>, the trace of what has been done so far,
  the goroutines started by \<open>go\<close> statements, the two channels, and the clock as the
  sequence of values that successive calls of \<open>time.Now().Unix()\<close> return.
\<close>

record 'k world =
  kv :: 'k
  trace :: "event list"
  spawned :: "goroutine list"
  taskQueue_closed :: bool
  done_closed :: bool
  clock :: "nat \<Rightarrow> int64"
  clock_reads :: nat

text \<open>
  A call returns, panics, or, for a worker loop, is still running when the inputs given
  to it are used up.
\<close>

datatype 'a outcome = Returned 'a | Panicked string | Running

definition emit :: "event \<Rightarrow> 'k world \<Rightarrow> 'k world" where
  "emit e w = w\<lparr>trace := trace w @ [e]\<rparr>"

text \<open>
  A \<open>go\<close> statement: it is an event of the function that executes it, and the goroutine
  is there from then on.
\<close>

definition go_stmt :: "goroutine \<Rightarrow> 'k world \<Rightarrow> 'k world" where
  "go_stmt g w = emit (Go g) (w\<lparr>spawned := spawned w @ [g]\<rparr>)"

definition time_Now_Unix :: "'k world \<Rightarrow> int64 \<times> 'k world" where
  "time_Now_Unix w = (clock w (clock_reads w), w\<lparr>clock_reads := Suc (clock_reads w)\<rparr>)"

definition kapi_Get ::
  "'k etcdMinion \<Rightarrow> string \<Rightarrow> get_options \<Rightarrow> 'k world \<Rightarrow> (response option \<times> err option) \<times> 'k world" where
  "kapi_Get m key opts w =
     (let (r, k') = Get (kapi m) key opts (kv w)
      in (r, emit (KVGet key opts) (w\<lparr>kv := k'\<rparr>)))"

definition kapi_Set ::
  "'k etcdMinion \<Rightarrow> string \<Rightarrow> string \<Rightarrow> set_options \<Rightarrow> 'k world \<Rightarrow> err option \<times> 'k world" where
  "kapi_Set m key val opts w =
     (let (e, k') = Set (kapi m) key val opts (kv w)
      in (e, emit (KVSet key val opts e) (w\<lparr>kv := k'\<rparr>)))"

definition kapi_Delete :: "'k etcdMinion \<Rightarrow> string \<Rightarrow> 'k world \<Rightarrow> err option \<times> 'k world" where
  "kapi_Delete m key w =
     (let (e, k') = Delete (kapi m) key (kv w)
      in (e, emit (KVDelete key e) (w\<lparr>kv := k'\<rparr>)))"

text \<open>
  A send on the task channel. The channel is unbuffered: the send completes when the
  runner receives. A send on a closed channel panics.
\<close>

definition chan_send :: "task option \<Rightarrow> 'k world \<Rightarrow> unit outcome \<times> 'k world" where
  "chan_send t w =
     (if taskQueue_closed w then (Panicked ''send on closed channel'', w)
      else (Returned (), emit (ChanSend t) w))"

text \<open>
  \<open>NewEtcdMinion\<close>: \<open>new_client\<close> is the result of \<open>etcdclient.New(cfg)\<close>; on an error the
  process exits through \<open>log.Fatal\<close> and there is no minion.
\<close>

definition NewEtcdMinion :: "libs \<Rightarrow> string \<Rightarrow> err + 'k KeysAPI \<Rightarrow> 'k etcdMinion option" where
  "NewEtcdMinion L nm new_client =
     (case new_client of
        Inl e \<Rightarrow> None
      | Inr api \<Rightarrow>
          let i = GenerateUUID L nm;
              root = Join [EtcdMinionSpace, uuid_String i]
          in Some \<lparr>name = nm, rootDir = root, queueDir = Join [root, ''queue''],
                   logDir = Join [root, ''log''], classifierDir = Join [root, ''classifier''],
                   id = i, kapi = api\<rparr>)"

definition EtcdUnmarshalTask :: "libs \<Rightarrow> node \<Rightarrow> task option \<times> err option" where
  "EtcdUnmarshalTask L n = json_Unmarshal_Task L (Val n)"

subsection \<open>The state writers\<close>

definition SetName :: "'k etcdMinion \<Rightarrow> string \<Rightarrow> 'k world \<Rightarrow> err option \<times> 'k world" where
  "SetName m nm w =
     (let nameKey = Join [rootDir m, ''name''];
          opts = \<lparr>PrevExistOpt = PrevIgnore, TTL = 0\<rparr>;
          (e, w1) = kapi_Set m nameKey nm opts w
      in if e \<noteq> None then (e, emit (Log ''Failed to set name of minion'') w1)
         else (e, w1))"

definition SetLastseen :: "'k etcdMinion \<Rightarrow> int64 \<Rightarrow> 'k world \<Rightarrow> err option \<times> 'k world" where
  "SetLastseen m s w =
     (let lastseenKey = Join [rootDir m, ''lastseen''];
          lastseenValue = FormatInt s 10;
          opts = \<lparr>PrevExistOpt = PrevIgnore, TTL = 0\<rparr>;
          (e, w1) = kapi_Set m lastseenKey lastseenValue opts w
      in if e \<noteq> None then (e, emit (Log ''Failed to set lastseen time'') w1)
         else (e, w1))"

text \<open>Classifiers expire after an hour.\<close>

definition SetClassifier ::
  "libs \<Rightarrow> 'k etcdMinion \<Rightarrow> classifier \<Rightarrow> 'k world \<Rightarrow> err option \<times> 'k world" where
  "SetClassifier L m c w =
     (let opts = \<lparr>PrevExistOpt = PrevIgnore, TTL = 3600\<rparr>;
          (data, e) = json_Marshal_Classifier L c
      in if e \<noteq> None then (e, emit (Log ''Failed to serialize classifier'') w)
         else
           let klassifierKey = Join [classifierDir m, CKey c];
               (e', w1) = kapi_Set m klassifierKey data opts w
           in if e' \<noteq> None then (e', emit (Log ''Failed to set classifier'') w1)
              else (None, w1))"

fun classify_range :: "libs \<Rightarrow> 'k etcdMinion \<Rightarrow> string list \<Rightarrow> 'k world \<Rightarrow> 'k world" where
  "classify_range L m [] w = w"
| "classify_range L m (key # keys) w =
     (case classifier_Get L key of
        Inl e \<Rightarrow> classify_range L m keys (emit (Log ''Failed to get classifier'') w)
      | Inr klassifier \<Rightarrow> classify_range L m keys (snd (SetClassifier L m klassifier w)))"

definition classify :: "libs \<Rightarrow> 'k etcdMinion \<Rightarrow> 'k world \<Rightarrow> err option \<times> 'k world" where
  "classify L m w = (None, classify_range L m (Registry L) w)"

definition SaveTaskResult ::
  "libs \<Rightarrow> 'k etcdMinion \<Rightarrow> task \<Rightarrow> 'k world \<Rightarrow> err option \<times> 'k world" where
  "SaveTaskResult L m t w =
     (let taskKey = Join [logDir m, uuid_String (TaskID t)];
          (data, e) = json_Marshal_Task L t
      in if e \<noteq> None then (e, emit (Log ''Failed to serialize task'') w)
         else
           let opts = \<lparr>PrevExistOpt = PrevIgnore, TTL = 0\<rparr>;
               (e', w1) = kapi_Set m taskKey data opts w
           in if e' \<noteq> None then (e', emit (Log ''Failed to save task'') w1)
              else (e', w1))"

subsection \<open>The backlog drainer\<close>

text \<open>
  The \<open>range\<close> loop of \<open>checkQueue\<close> over the backlog: decode, delete the node, skip the
  node when decoding failed, send the task otherwise.
\<close>

fun checkQueue_range ::
  "libs \<Rightarrow> 'k etcdMinion \<Rightarrow> node list \<Rightarrow> 'k world \<Rightarrow> err option outcome \<times> 'k world" where
  "checkQueue_range L m [] w = (Returned None, w)"
| "checkQueue_range L m (n # ns) w =
     (case EtcdUnmarshalTask L n of (t, e) \<Rightarrow>
        let w1 = snd (kapi_Delete m (Key n) w)
        in if e \<noteq> None then checkQueue_range L m ns w1
           else (case chan_send t w1 of
                   (Returned u, w2) \<Rightarrow> checkQueue_range L m ns w2
                 | (Panicked p, w2) \<Rightarrow> (Panicked p, w2)
                 | (Running, w2) \<Rightarrow> (Running, w2)))"

text \<open>
  \<open>checkQueue\<close>. After a failed \<open>Get\<close> the function returns the error when it is not an
  \<open>etcdclient.Error\<close> or when its code is \<open>ErrorCodeKeyNotFound\<close>; with any other
  \<open>etcdclient.Error\<close> it goes on to read \<open>resp.Node.Nodes\<close>, and \<open>resp\<close> is nil then.
\<close>

definition returns_get_error :: "err \<Rightarrow> bool" where
  "returns_get_error e =
     (case e of
        EtcdError code \<Rightarrow> code = ErrorCodeKeyNotFound
      | OtherError s \<Rightarrow> True)"

definition checkQueue :: "libs \<Rightarrow> 'k etcdMinion \<Rightarrow> 'k world \<Rightarrow> err option outcome \<times> 'k world" where
  "checkQueue L m w =
     (let opts = \<lparr>Recursive = True, Sort = True\<rparr>;
          ((resp, e), w1) = kapi_Get m (queueDir m) opts w
      in if e \<noteq> None \<and> returns_get_error (the e) then (Returned e, w1)
         else (case resp of
                 None \<Rightarrow> (Panicked ''nil pointer dereference'', w1)
               | Some r \<Rightarrow>
                   let backlog = Nodes (Node r)
                   in if length backlog = 0 then (Returned None, w1)
                      else checkQueue_range L m backlog
                             (emit (Log ''Found pending tasks in queue'') w1)))"

subsection \<open>The task runner\<close>

text \<open>
  \<open>processTask\<close> changes the task it is given through the pointer; the model returns the
  task as it is at the end.
\<close>

definition processTask ::
  "libs \<Rightarrow> 'k etcdMinion \<Rightarrow> task \<Rightarrow> 'k world \<Rightarrow> (err option \<times> task) \<times> 'k world" where
  "processTask L m t w =
     (let t1 = t\<lparr>State := TaskStateProcessing\<rparr>;
          w1 = snd (SaveTaskResult L m t1 w);
          w2 = emit (Log ''Processing task'') w1;
          buf = ''Loaded '' @ formatBits (Len (Catalog t1)) 10 @ '' resources from catalog'';
          w3 = emit (CatalogRun (TaskID t1)) w2;
          buf' = buf @ Run_output (Catalog t1);
          e = Run_error (Catalog t1);
          (now, w4) = time_Now_Unix w3;
          t2 = t1\<lparr>TimeProcessed := now, Result := buf'\<rparr>;
          t3 = (if e \<noteq> None then t2\<lparr>State := TaskStateFailed\<rparr>
                else t2\<lparr>State := TaskStateSuccess\<rparr>);
          w5 = emit (Log (if e \<noteq> None then ''Failed to process task''
                          else ''Finished processing task'')) w4;
          w6 = snd (SaveTaskResult L m t3 w5)
      in ((e, t3), w6))"

text \<open>
  One \<open>select\<close> of the runner is decided by the scheduler: the done case is ready once
  \<open>done\<close> is closed; the receive case is ready with the value a sender hands over while
  the task channel is open, and with nil once it is closed. A choice that is not ready
  leaves the worker waiting.
\<close>

datatype runner_select = SelDone | SelRecv "task option" | SelRecvClosed

text \<open>
  The body of the receive case. The \<open>break\<close> of the done case leaves the \<open>select\<close>, not
  the \<open>for\<close> loop, so after either case the loop goes round again.
\<close>

definition TaskRunner_recv ::
  "libs \<Rightarrow> 'k etcdMinion \<Rightarrow> task option \<Rightarrow> 'k world \<Rightarrow> unit outcome \<times> 'k world" where
  "TaskRunner_recv L m x w =
     (case x of
        None \<Rightarrow> (Panicked ''nil pointer dereference'', emit (ChanRecv None) w)
      | Some t \<Rightarrow>
          let w0 = emit (ChanRecv (Some t)) w;
              (now, w1) = time_Now_Unix w0;
              t1 = t\<lparr>State := TaskStateQueued, TimeReceived := now\<rparr>;
              w2 = snd (SaveTaskResult L m t1 w1)
          in if IsConcurrent t1 then (Returned (), go_stmt (GoProcessTask t1) w2)
             else (Returned (), snd (processTask L m t1 w2)))"

fun TaskRunner_loop ::
  "libs \<Rightarrow> 'k etcdMinion \<Rightarrow> runner_select list \<Rightarrow> 'k world \<Rightarrow> err option outcome \<times> 'k world" where
  "TaskRunner_loop L m [] w = (Running, w)"
| "TaskRunner_loop L m (SelDone # sels) w =
     (if done_closed w then TaskRunner_loop L m sels w else (Running, w))"
| "TaskRunner_loop L m (SelRecv x # sels) w =
     (if taskQueue_closed w then (Running, w)
      else (case TaskRunner_recv L m x w of
              (Returned u, w1) \<Rightarrow> TaskRunner_loop L m sels w1
            | (Panicked p, w1) \<Rightarrow> (Panicked p, w1)
            | (Running, w1) \<Rightarrow> (Running, w1)))"
| "TaskRunner_loop L m (SelRecvClosed # sels) w =
     (if \<not> taskQueue_closed w then (Running, w)
      else (case TaskRunner_recv L m None w of
              (Returned u, w1) \<Rightarrow> TaskRunner_loop L m sels w1
            | (Panicked p, w1) \<Rightarrow> (Panicked p, w1)
            | (Running, w1) \<Rightarrow> (Running, w1)))"

definition TaskRunner ::
  "libs \<Rightarrow> 'k etcdMinion \<Rightarrow> runner_select list \<Rightarrow> 'k world \<Rightarrow> err option outcome \<times> 'k world" where
  "TaskRunner L m sels w = TaskRunner_loop L m sels (emit (Log ''Starting task runner'') w)"

subsection \<open>The periodic runner\<close>

datatype ticker_select = TickDone | Tick int64

fun periodicRunner_loop ::
  "libs \<Rightarrow> 'k etcdMinion \<Rightarrow> ticker_select list \<Rightarrow> 'k world \<Rightarrow> unit outcome \<times> 'k world" where
  "periodicRunner_loop L m [] w = (Running, w)"
| "periodicRunner_loop L m (TickDone # sels) w =
     (if done_closed w then periodicRunner_loop L m sels w else (Running, w))"
| "periodicRunner_loop L m (Tick now # sels) w =
     (let w1 = snd (classify L m w)
      in case checkQueue L m w1 of
           (Returned e, w2) \<Rightarrow> periodicRunner_loop L m sels (snd (SetLastseen m now w2))
         | (Panicked p, w2) \<Rightarrow> (Panicked p, w2)
         | (Running, w2) \<Rightarrow> (Running, w2))"

definition periodicRunner ::
  "libs \<Rightarrow> 'k etcdMinion \<Rightarrow> ticker_select list \<Rightarrow> 'k world \<Rightarrow> unit outcome \<times> 'k world" where
  "periodicRunner L m sels w =
     periodicRunner_loop L m sels (emit (Log ''Periodic scheduler set to run every 5m0s'') w)"

subsection \<open>The queue watcher\<close>

text \<open>
  What \<open>watcher.Next\<close> returns in one round of the loop: a transport error, together
  with the sample the generator draws in that round, or an event.
\<close>

datatype watch_in = WatchErr err rat | WatchEvent response

text \<open>
  The body of the loop of \<open>TaskListener\<close> after a successful receive; \<open>b\<close> has been
  reset by then.
\<close>

definition TaskListener_event ::
  "libs \<Rightarrow> 'k etcdMinion \<Rightarrow> response \<Rightarrow> 'k world \<Rightarrow> unit outcome \<times> 'k world" where
  "TaskListener_event L m resp w =
     (let action = ToLower (Action resp)
      in if EqualFold action ''delete'' then (Returned (), w)
         else
           (case EtcdUnmarshalTask L (Node resp) of (t, e) \<Rightarrow>
              let w1 = snd (kapi_Delete m (Key (Node resp)) w)
              in if e \<noteq> None then (Returned (), emit (Log ''Received invalid task'') w1)
                 else (case t of
                         None \<Rightarrow> (Panicked ''nil pointer dereference'', w1)
                       | Some t' \<Rightarrow> chan_send t (emit (Log ''Received task'') w1))))"

fun TaskListener_loop ::
  "libs \<Rightarrow> 'k etcdMinion \<Rightarrow> Backoff \<Rightarrow> watch_in list \<Rightarrow> 'k world \<Rightarrow>
     err option outcome \<times> Backoff \<times> 'k world" where
  "TaskListener_loop L m b [] w = (Running, b, w)"
| "TaskListener_loop L m b (WatchErr e r # ins) w =
     (case backoff_Duration L b r of (duration, b') \<Rightarrow>
        TaskListener_loop L m b' ins (emit (Sleep duration) (emit (Log ''retrying'') w)))"
| "TaskListener_loop L m b (WatchEvent resp # ins) w =
     (let b' = backoff_Reset L b
      in case TaskListener_event L m resp w of
           (Returned u, w1) \<Rightarrow> TaskListener_loop L m b' ins w1
         | (Panicked p, w1) \<Rightarrow> (Panicked p, b', w1)
         | (Running, w1) \<Rightarrow> (Running, b', w1))"

definition TaskListener ::
  "libs \<Rightarrow> 'k etcdMinion \<Rightarrow> watch_in list \<Rightarrow> 'k world \<Rightarrow> err option outcome \<times> 'k world" where
  "TaskListener L m ins w =
     (let w0 = emit (Log ''Task listener is watching'') w;
          b = \<lparr>Min_dur = 1 * Second, Max_dur = 10 * Minute, Factor = 2, Jitter = True,
               internal = 0\<rparr>
      in case TaskListener_loop L m b ins w0 of (out, b', w1) \<Rightarrow> (out, w1))"

subsection \<open>Serve and Stop\<close>

definition Serve :: "'k etcdMinion \<Rightarrow> 'k world \<Rightarrow> err option outcome \<times> 'k world" where
  "Serve m w =
     (case SetName m (name m) w of (e, w1) \<Rightarrow>
        if e \<noteq> None then (Returned e, w1)
        else
          (case time_Now_Unix w1 of (now, w2) \<Rightarrow>
             (case SetLastseen m now w2 of (e', w3) \<Rightarrow>
                if e' \<noteq> None then (Returned e', w3)
                else
                  let w4 = go_stmt GoTaskListener (go_stmt GoTaskRunner
                             (go_stmt GoPeriodicRunner (go_stmt GoCheckQueue
                                (go_stmt GoClassify w3))))
                  in (Returned None, emit (Log ''Minion is ready to serve'') w4))))"

text \<open>\<open>Stop\<close> closes the task channel, then the done channel. Closing a closed channel panics.\<close>

definition Stop :: "'k world \<Rightarrow> err option outcome \<times> 'k world" where
  "Stop w =
     (let w1 = emit (Log ''Minion is shutting down'') w
      in if taskQueue_closed w1 then (Panicked ''close of closed channel'', w1)
         else
           let w2 = w1\<lparr>taskQueue_closed := True\<rparr>
           in if done_closed w2 then (Panicked ''close of closed channel'', w2)
              else (Returned None, w2\<lparr>done_closed := True\<rparr>))"

subsection \<open>Notions the properties are stated with\<close>

text \<open>
  The unsigned decimal representation of a number: a non-empty string of ASCII digits
  without a leading zero, except for the string \<open>0\<close> itself, whose value is the number.
\<close>

definition is_digit :: "char \<Rightarrow> bool" where
  "is_digit c = (48 \<le> (of_char c :: nat) \<and> (of_char c :: nat) \<le> 57)"

definition decimal_value :: "string \<Rightarrow> nat" where
  "decimal_value v = foldl (\<lambda>a c. 10 * a + ((of_char c :: nat) - 48)) 0 v"

definition is_decimal_of :: "string \<Rightarrow> nat \<Rightarrow> bool" where
  "is_decimal_of v n =
     (v \<noteq> [] \<and> list_all is_digit v \<and> (1 < length v \<longrightarrow> hd v \<noteq> CHR ''0'') \<and>
      decimal_value v = n)"


definition saved :: "libs \<Rightarrow> string \<Rightarrow> task list \<Rightarrow> (string \<times> string) list" where
  "saved L key ts =
     map (\<lambda>t. (key, fst (json_Marshal_Task L t)))
       (filter (\<lambda>t. snd (json_Marshal_Task L t) = None) ts)"

definition queued :: "task \<Rightarrow> int64 \<Rightarrow> task" where
  "queued t now = t\<lparr>State := TaskStateQueued, TimeReceived := now\<rparr>"

definition processing :: "task \<Rightarrow> task" where
  "processing t = t\<lparr>State := TaskStateProcessing\<rparr>"






text \<open>
  Equality of two strings under case-insensitive comparison. A path element that
  \<open>filepath.Clean\<close> leaves alone: not empty, without a slash, and
  neither \<open>.\<close> nor \<open>..\<close>. The characters of the string form of a UUID.
\<close>

definition equal_ignoring_case :: "string \<Rightarrow> string \<Rightarrow> bool" where
  "equal_ignoring_case a b = (ToLower a = ToLower b)"

definition plain :: "string \<Rightarrow> bool" where
  "plain e = (e \<noteq> [] \<and> CHR ''/'' \<notin> set e \<and> e \<noteq> ''.'' \<and> e \<noteq> ''..'')"

definition uuid_char :: "char \<Rightarrow> bool" where
  "uuid_char c = (c \<in> set hexdigits \<or> c = CHR ''-'')"

text \<open>
  What a trace does to the queue and to the task channel: the keys deleted and the values
  sent, in order. What the handling of one queue node does: the node is deleted, and its
  task is sent when the payload decodes. The events that a call has added to the
  trace. The log key of a task-id.
\<close>

definition queue_ops :: "event list \<Rightarrow> (string + task option) list" where
  "queue_ops tr =
     concat (map (\<lambda>e. case e of KVDelete key r \<Rightarrow> [Inl key] | ChanSend x \<Rightarrow> [Inr x] | _ \<Rightarrow> []) tr)"

definition node_ops :: "libs \<Rightarrow> node \<Rightarrow> (string + task option) list" where
  "node_ops L n =
     Inl (Key n) # (case EtcdUnmarshalTask L n of (t, None) \<Rightarrow> [Inr t] | (t, Some e) \<Rightarrow> [])"

definition new_events :: "'k world \<Rightarrow> 'k world \<Rightarrow> event list" where
  "new_events w w' = drop (length (trace w)) (trace w')"

definition log_key :: "'k etcdMinion \<Rightarrow> uuid \<Rightarrow> string" where
  "log_key m u = Join [logDir m, uuid_String u]"

text \<open>
  A run of the minion is a list of events, each with the goroutine that it is an event
  of: one of the five that \<open>Serve\<close> starts, or one that the runner starts for a
  concurrent task, numbered in the order of the \<open>go\<close> statements of the runner. The
  events of one goroutine in a run, and the goroutines that the runner starts in it.
\<close>

datatype thread = Classifier | Drainer | Ticker | Runner | Watcher | Routine nat

definition proj :: "thread \<Rightarrow> (thread \<times> event) list \<Rightarrow> event list" where
  "proj th G = map snd (filter (\<lambda>a. fst a = th) G)"

fun spawns :: "(thread \<times> event) list \<Rightarrow> goroutine list" where
  "spawns [] = []"
| "spawns ((th, e) # G) =
     (case e of
        Go g \<Rightarrow> if th = Runner then g # spawns G else spawns G
      | _ \<Rightarrow> spawns G)"

text \<open>
  What the channel and the \<open>go\<close> statement allow in a run, when the runner has started
  \<open>n\<close> goroutines already. The task channel is unbuffered, so a send is completed by the
  receive of the same value by the runner, which is the next event of the run; a receive
  without a send gives nil, from the closed channel. A goroutine of the runner has
  events only after the \<open>go\<close> statement that starts it.
\<close>

fun is_run :: "nat \<Rightarrow> (thread \<times> event) list \<Rightarrow> bool" where
  "is_run n [] = True"
| "is_run n ((th, e) # G) =
     ((case th of Routine k \<Rightarrow> k < n | _ \<Rightarrow> True) \<and>
      (case e of
         ChanSend x \<Rightarrow> (case G of [] \<Rightarrow> False | a # G' \<Rightarrow> a = (Runner, ChanRecv x) \<and> is_run n G')
       | ChanRecv x \<Rightarrow> th = Runner \<and> x = None \<and> is_run n G
       | Go g \<Rightarrow> is_run (if th = Runner then Suc n else n) G
       | _ \<Rightarrow> is_run n G))"

text \<open>
  Removal comes first in a run: every send on the task channel comes after a call of
  \<open>Delete\<close> by the sender that no earlier send of that sender has used, and every record
  that the runner or one of its goroutines writes is written to the log key of a task
  that has been sent before, as every catalog that is run is the catalog of such a task.
  \<open>F\<close> holds the goroutines that have called \<open>Delete\<close> since their last send, and \<open>ids\<close>
  the task-ids sent so far.
\<close>

definition received :: "task option \<Rightarrow> uuid list \<Rightarrow> uuid list" where
  "received x ids = (case x of None \<Rightarrow> ids | Some t \<Rightarrow> TaskID t # ids)"

definition is_worker :: "thread \<Rightarrow> bool" where
  "is_worker th = (case th of Runner \<Rightarrow> True | Routine k \<Rightarrow> True | _ \<Rightarrow> False)"

fun removal_first ::
  "'k etcdMinion \<Rightarrow> (thread \<Rightarrow> bool) \<Rightarrow> uuid list \<Rightarrow> (thread \<times> event) list \<Rightarrow> bool" where
  "removal_first m F ids [] = True"
| "removal_first m F ids ((th, KVDelete key r) # G) = removal_first m (F(th := True)) ids G"
| "removal_first m F ids ((th, ChanSend x) # G) =
     (F th \<and> removal_first m (F(th := False)) (received x ids) G)"
| "removal_first m F ids ((th, KVSet key val opts r) # G) =
     ((is_worker th \<longrightarrow> key \<in> set (map (log_key m) ids)) \<and> removal_first m F ids G)"
| "removal_first m F ids ((th, CatalogRun u) # G) = (u \<in> set ids \<and> removal_first m F ids G)"
| "removal_first m F ids ((th, e) # G) = removal_first m F ids G"

text \<open>
  The same, for the events of one goroutine. One that is not the runner nor started by
  it sends only after a call of \<open>Delete\<close> that it has not used for a send; it runs no
  catalog, receives nothing and starts nothing. The runner writes only to the log keys of
  tasks it has received, runs only their catalogs and starts goroutines only for them; it
  neither deletes nor sends. A goroutine of the runner writes only to the log key of its
  task and runs only its catalog.
\<close>

fun producer_ok :: "bool \<Rightarrow> event list \<Rightarrow> bool" where
  "producer_ok f [] = True"
| "producer_ok f (KVDelete key r # es) = producer_ok True es"
| "producer_ok f (ChanSend x # es) = (f \<and> producer_ok False es)"
| "producer_ok f (ChanRecv x # es) = False"
| "producer_ok f (CatalogRun u # es) = False"
| "producer_ok f (Go g # es) = False"
| "producer_ok f (e # es) = producer_ok f es"

fun runner_ok :: "'k etcdMinion \<Rightarrow> uuid list \<Rightarrow> event list \<Rightarrow> bool" where
  "runner_ok m ids [] = True"
| "runner_ok m ids (ChanRecv x # es) = runner_ok m (received x ids) es"
| "runner_ok m ids (KVSet key val opts r # es) =
     (key \<in> set (map (log_key m) ids) \<and> runner_ok m ids es)"
| "runner_ok m ids (CatalogRun u # es) = (u \<in> set ids \<and> runner_ok m ids es)"
| "runner_ok m ids (Go g # es) =
     ((case g of GoProcessTask t \<Rightarrow> TaskID t \<in> set ids | _ \<Rightarrow> False) \<and> runner_ok m ids es)"
| "runner_ok m ids (KVDelete key r # es) = False"
| "runner_ok m ids (ChanSend x # es) = False"
| "runner_ok m ids (e # es) = runner_ok m ids es"

fun routine_ok :: "'k etcdMinion \<Rightarrow> uuid \<Rightarrow> event list \<Rightarrow> bool" where
  "routine_ok m u [] = True"
| "routine_ok m u (KVSet key val opts r # es) = (key = log_key m u \<and> routine_ok m u es)"
| "routine_ok m u (CatalogRun u' # es) = (u' = u \<and> routine_ok m u es)"
| "routine_ok m u (KVGet key opts # es) = routine_ok m u es"
| "routine_ok m u (Sleep d # es) = routine_ok m u es"
| "routine_ok m u (Log s # es) = routine_ok m u es"
| "routine_ok m u (e # es) = False"

subsection \<open>Two implementations of the interface, and inputs for the examples\<close>

text \<open>
  An etcd that is lost after some writes: the store is the number of calls of \<open>Set\<close> and
  \<open>Delete\<close> that still succeed; after them, and for every \<open>Get\<close>, the call fails with
  the given error and a nil response.
\<close>

definition outage_kapi :: "err \<Rightarrow> nat KeysAPI" where
  "outage_kapi e =
     \<lparr>Get = (\<lambda>key opts k. ((None, Some e), k)),
      Set = (\<lambda>key val opts k. if k = 0 then (Some e, k) else (None, k - 1)),
      Delete = (\<lambda>key k. if k = 0 then (Some e, k) else (None, k - 1))\<rparr>"

text \<open>
  An etcd in memory: the store is the list of its keys with their values. \<open>Get\<close> of a key
  gives its node; \<open>Get\<close> of a directory gives a node with the keys below it as children,
  in the order of the store; \<open>Get\<close> and \<open>Delete\<close> of a missing key fail with
  \<open>ErrorCodeKeyNotFound\<close>.
\<close>

type_synonym mem_store = "(string \<times> string) list"

definition is_under :: "string \<Rightarrow> string \<Rightarrow> bool" where
  "is_under dir key = (take (Suc (length dir)) key = dir @ ''/'')"

definition mem_Get ::
  "string \<Rightarrow> get_options \<Rightarrow> mem_store \<Rightarrow> (response option \<times> err option) \<times> mem_store" where
  "mem_Get key opts st =
     (case map_of st key of
        Some v \<Rightarrow> ((Some (Response ''get'' (EtcdNode key v [])), None), st)
      | None \<Rightarrow>
          let kids = map (\<lambda>p. EtcdNode (fst p) (snd p) []) (filter (\<lambda>p. is_under key (fst p)) st)
          in if kids = [] then ((None, Some (EtcdError ErrorCodeKeyNotFound)), st)
             else ((Some (Response ''get'' (EtcdNode key [] kids)), None), st))"

definition mem_Set ::
  "string \<Rightarrow> string \<Rightarrow> set_options \<Rightarrow> mem_store \<Rightarrow> err option \<times> mem_store" where
  "mem_Set key val opts st = (None, filter (\<lambda>p. fst p \<noteq> key) st @ [(key, val)])"

definition mem_Delete :: "string \<Rightarrow> mem_store \<Rightarrow> err option \<times> mem_store" where
  "mem_Delete key st =
     (if map_of st key = None then (Some (EtcdError ErrorCodeKeyNotFound), st)
      else (None, filter (\<lambda>p. fst p \<noteq> key) st))"

definition mem_kapi :: "mem_store KeysAPI" where
  "mem_kapi = \<lparr>Get = mem_Get, Set = mem_Set, Delete = mem_Delete\<rparr>"

text \<open>
  An etcd in memory that cannot be reached for a moment: the store has the number of
  calls of \<open>Delete\<close> that fail next, each with a transport error and without a change
  of the keys; every other call is that of the etcd in memory.
\<close>

definition flaky_kapi :: "(nat \<times> mem_store) KeysAPI" where
  "flaky_kapi =
     \<lparr>Get = (\<lambda>key opts k. (fst (mem_Get key opts (snd k)), k)),
      Set = (\<lambda>key val opts k.
               (fst (mem_Set key val opts (snd k)), (fst k, snd (mem_Set key val opts (snd k))))),
      Delete = (\<lambda>key k.
               if 0 < fst k then (Some (OtherError ''connection refused''), (fst k - 1, snd k))
               else (fst (mem_Delete key (snd k)), (fst k, snd (mem_Delete key (snd k)))))\<rparr>"

text \<open>
  Modelled from the spec: package \<open>backoff\<close> is not in the source files at hand, and the
  specification gives the delays of its generator in scenario S3: they form a sequence
  within 1 s, 2 s, 4 s, 8 s and so on, each with a jitter of plus or minus 50%, never
  exceeding 10 minutes, and after a reset the next delay is the minimum again. So the
  \<open>k\<close>-th delay since the last reset, counting from 0, has the base value minimum times
  factor to the \<open>k\<close>; with jitter the sample \<open>r\<close> puts it between 50% and 150% of the base
  value; no delay exceeds the maximum. The internal number counts the delays since the
  last reset.
\<close>

definition spec_Duration :: "Backoff \<Rightarrow> rat \<Rightarrow> int \<times> Backoff" where
  "spec_Duration b r =
     (let base = of_int (Min_dur b) * Factor b ^ internal b;
          dur = (if Jitter b then base * (1 / 2 + r) else base);
          b' = b\<lparr>internal := Suc (internal b)\<rparr>
      in if dur > of_int (Max_dur b) then (Max_dur b, b') else (\<lfloor>dur\<rfloor>, b'))"

definition spec_Reset :: "Backoff \<Rightarrow> Backoff" where
  "spec_Reset b = b\<lparr>internal := 0\<rparr>"

text \<open>
  A small codec for the examples: the payloads \<open>seq\<close> and \<open>conc\<close> are a sequential and a
  concurrent task with an empty catalog, \<open>null\<close> decodes to a nil task without an
  error, and every other payload is a syntax error. A task is encoded as the name of
  its state.
\<close>

definition example_task :: "bool \<Rightarrow> task" where
  "example_task conc =
     \<lparr>TaskID = [7, 7, 7, 7, 7, 7, 7, 7, 7, 7, 7, 7, 7, 7, 7, 7], Catalog = \<lparr>Len = 0, Run_output = [], Run_error = None\<rparr>,
      IsConcurrent = conc, State = TaskStateQueued, TimeReceived = 0, TimeProcessed = 0,
      Result = []\<rparr>"

definition state_name :: "task_state \<Rightarrow> string" where
  "state_name s =
     (case s of
        TaskStateQueued \<Rightarrow> ''queued''
      | TaskStateProcessing \<Rightarrow> ''processing''
      | TaskStateSuccess \<Rightarrow> ''success''
      | TaskStateFailed \<Rightarrow> ''failed'')"

definition example_libs :: libs where
  "example_libs =
     \<lparr>GenerateUUID = (\<lambda>nm. of_nat (length nm) # [5, 5, 5, 5, 5, 5, 5, 5, 5, 5, 5, 5, 5, 5, 5]),
      json_Unmarshal_Task = (\<lambda>s.
         if s = ''seq'' then (Some (example_task False), None)
         else if s = ''conc'' then (Some (example_task True), None)
         else if s = ''null'' then (None, None)
         else (Some (example_task False), Some (OtherError ''invalid character''))),
      json_Marshal_Task = (\<lambda>t. (state_name (State t), None)),
      json_Marshal_Classifier = (\<lambda>c. (CValue c, None)),
      Registry = [],
      classifier_Get = (\<lambda>key. Inl (OtherError ''classifier key not found'')),
      backoff_Duration = spec_Duration,
      backoff_Reset = spec_Reset\<rparr>"

definition example_minion :: "'k KeysAPI \<Rightarrow> 'k etcdMinion" where
  "example_minion api =
     \<lparr>name = ''Kevin'',
      rootDir = ''/gru/minion/05050505-0505-0505-0505-050505050505'',
      queueDir = ''/gru/minion/05050505-0505-0505-0505-050505050505/queue'',
      logDir = ''/gru/minion/05050505-0505-0505-0505-050505050505/log'',
      classifierDir = ''/gru/minion/05050505-0505-0505-0505-050505050505/classifier'',
      id = [5, 5, 5, 5, 5, 5, 5, 5, 5, 5, 5, 5, 5, 5, 5, 5], kapi = api\<rparr>"

definition example_queue_key :: string where
  "example_queue_key = ''/gru/minion/05050505-0505-0505-0505-050505050505/queue/aaa''"

definition example_log_key :: string where
  "example_log_key =
     ''/gru/minion/05050505-0505-0505-0505-050505050505/log/07070707-0707-0707-0707-070707070707''"


definition example_world :: "'k \<Rightarrow> 'k world" where
  "example_world k =
     \<lparr>kv = k, trace = [], spawned = [], taskQueue_closed = False, done_closed = False,
      clock = (\<lambda>n. 1450357761 + of_nat n), clock_reads = 0\<rparr>"

text \<open>
  A run of the minion named Kevin with one concurrent task in its queue, which the
  drainer finds in the backlog and the watcher gets an event for: both call \<open>Delete\<close>
  for the entry, the drainer first, and both send the task; the runner receives it
  twice and starts a goroutine each time.
\<close>

definition example_run :: "(thread \<times> event) list" where
  "example_run =
     (let conc = example_task True;
          save = (\<lambda>s. KVSet example_log_key s \<lparr>PrevExistOpt = PrevIgnore, TTL = 0\<rparr> None)
      in [(Runner, Log ''Starting task runner''),
          (Ticker, Log ''Periodic scheduler set to run every 5m0s''),
          (Watcher, Log ''Task listener is watching''),
          (Drainer, KVGet ''/gru/minion/05050505-0505-0505-0505-050505050505/queue''
                      \<lparr>Recursive = True, Sort = True\<rparr>),
          (Drainer, Log ''Found pending tasks in queue''),
          (Drainer, KVDelete example_queue_key None),
          (Watcher, KVDelete example_queue_key (Some (EtcdError ErrorCodeKeyNotFound))),
          (Watcher, Log ''Received task''),
          (Drainer, ChanSend (Some conc)),
          (Runner, ChanRecv (Some conc)),
          (Runner, save ''queued''),
          (Runner, Go (GoProcessTask (queued conc 1450357761))),
          (Routine 0, save ''processing''),
          (Watcher, ChanSend (Some conc)),
          (Runner, ChanRecv (Some conc)),
          (Routine 0, Log ''Processing task''),
          (Runner, save ''queued''),
          (Routine 0, CatalogRun (TaskID conc)),
          (Runner, Go (GoProcessTask (queued conc 1450357762))),
          (Routine 0, Log ''Finished processing task''),
          (Routine 1, save ''processing''),
          (Routine 0, save ''success''),
          (Routine 1, Log ''Processing task'')])"

section \<open>Properties\<close>

subsection \<open>Paths, identifiers and decimal numbers\<close>

lemma split_path_no_slash: "CHR ''/'' \<notin> set e \<Longrightarrow> split_path e = [e]"
  by (induction e) auto

lemma split_path_append:
  "CHR ''/'' \<notin> set e \<Longrightarrow> split_path (e @ CHR ''/'' # rest) = e # split_path rest"
  by (induction e) auto

lemma split_path_Join:
  "cs \<noteq> [] \<Longrightarrow> \<forall>e\<in>set cs. CHR ''/'' \<notin> set e \<Longrightarrow> split_path (strings_Join cs ''/'') = cs"
proof (induction cs "''/''" rule: strings_Join.induct)
  case 1
  then show ?case by simp
next
  case (2 e)
  then show ?case by (simp add: split_path_no_slash)
next
  case (3 e v va)
  then show ?case by (simp add: split_path_append)
qed

lemma clean_elems_plain:
  "\<forall>e\<in>set cs. plain e \<Longrightarrow> clean_elems rooted out cs = out @ cs"
  by (induction cs arbitrary: out) (auto simp: plain_def)

lemma strings_Join_snoc:
  "cs \<noteq> [] \<Longrightarrow> strings_Join (cs @ [e]) sep = strings_Join cs sep @ sep @ e"
  by (induction cs sep rule: strings_Join.induct) auto

lemma Clean_rooted_plain:
  assumes "\<forall>e\<in>set cs. plain e"
  shows "Clean (CHR ''/'' # strings_Join cs ''/'') = CHR ''/'' # strings_Join cs ''/''"
proof (cases "cs = []")
  case True
  then show ?thesis by (simp add: Clean_def)
next
  case False
  from assms have ns: "\<forall>e\<in>set cs. CHR ''/'' \<notin> set e" by (simp add: plain_def)
  have "split_path (CHR ''/'' # strings_Join cs ''/'') = [] # cs"
    using split_path_Join [OF False ns] by simp
  then show ?thesis
    using assms by (simp add: Clean_def clean_elems_plain)
qed

lemma Join_rooted_plain:
  assumes "cs \<noteq> []" and "\<forall>e\<in>set cs. plain e" and "plain e"
  shows "Join [CHR ''/'' # strings_Join cs ''/'', e] = CHR ''/'' # strings_Join cs ''/'' @ ''/'' @ e"
proof -
  have "CHR ''/'' # strings_Join cs ''/'' @ ''/'' @ e = CHR ''/'' # strings_Join (cs @ [e]) ''/''"
    using assms(1) by (simp add: strings_Join_snoc)
  moreover have "Clean (CHR ''/'' # strings_Join (cs @ [e]) ''/'') = CHR ''/'' # strings_Join (cs @ [e]) ''/''"
    by (rule Clean_rooted_plain) (use assms in auto)
  ultimately show ?thesis by simp
qed

lemma uuid_char_not_special: "uuid_char c \<Longrightarrow> c \<noteq> CHR ''/'' \<and> c \<noteq> CHR ''.''"
  by (auto simp: uuid_char_def hexdigits_def)

lemma nibble_hex: "n < 16 \<Longrightarrow> uuid_char (hexdigits ! n)"
proof -
  assume "n < 16"
  then have "n < length hexdigits" by (simp add: hexdigits_def)
  then show ?thesis unfolding uuid_char_def using nth_mem by blast
qed

lemma hex_byte_chars: "\<forall>c\<in>set (hex_byte b). uuid_char c"
proof -
  have b: "unat b < 2 ^ 8"
    using unsigned_less [of b, where ?'a = nat] by simp
  have "unat (drop_bit 4 b) = unat b div 2 ^ 4"
    by (simp add: drop_bit_eq_div unat_div)
  with b have "unat (drop_bit 4 b) < 16" by simp
  moreover have "unat (b AND 15) < 16"
  proof -
    have "unat (b AND 15) \<le> unat (15 :: 8 word)"
      by (rule word_and_le1 [THEN word_le_nat_alt [THEN iffD1]])
    then show ?thesis by simp
  qed
  ultimately show ?thesis
    by (simp add: hex_byte_def nibble_hex)
qed

lemma hex_encode_chars: "\<forall>c\<in>set (hex_encode bs). uuid_char c"
  using hex_byte_chars by (auto simp: hex_encode_def)

lemma length_hex_encode: "length (hex_encode bs) = 2 * length bs"
  by (induction bs) (auto simp: hex_encode_def hex_byte_def)

lemma uuid_String_chars: "\<forall>c\<in>set (uuid_String u). uuid_char c"
  using hex_encode_chars by (auto simp: uuid_String_def uuid_char_def)

lemma length_uuid_String: "length u = 16 \<Longrightarrow> length (uuid_String u) = 36"
  by (simp add: uuid_String_def length_hex_encode)

lemma plain_uuid_String: "length u = 16 \<Longrightarrow> plain (uuid_String u)"
proof -
  assume l: "length u = 16"
  have "CHR ''/'' \<notin> set (uuid_String u)"
    using uuid_String_chars [of u] uuid_char_not_special by blast
  moreover have "uuid_String u \<noteq> []" "uuid_String u \<noteq> ''.''" "uuid_String u \<noteq> ''..''"
    using length_uuid_String [OF l] by auto
  ultimately show ?thesis by (simp add: plain_def)
qed

lemma rootDir_of_uuid:
  "length u = 16 \<Longrightarrow> Join [EtcdMinionSpace, uuid_String u] = ''/gru/minion/'' @ uuid_String u"
  using Join_rooted_plain [of "[''gru'', ''minion'']" "uuid_String u"] plain_uuid_String [of u]
  by (simp add: EtcdMinionSpace_def plain_def)

lemma Join_rootDir:
  assumes "length u = 16" and "plain e"
  shows "Join [''/gru/minion/'' @ uuid_String u, e] = ''/gru/minion/'' @ uuid_String u @ ''/'' @ e"
  using Join_rooted_plain [of "[''gru'', ''minion'', uuid_String u]" e] plain_uuid_String [OF assms(1)] assms(2)
  by (simp add: plain_def)

lemma upt_10: "[0..<10] = [0, 1, 2, 3, 4, 5, 6, 7, 8, 9]"
  by (simp add: upt_rec)

lemma digit_cases: "d < 10 \<Longrightarrow> d \<in> set [0, 1, 2, 3, 4, 5, 6, 7, 8, 9 :: nat]"
proof -
  assume "d < 10"
  then have "d \<in> set [0..<10]" by simp
  then show ?thesis unfolding upt_10 .
qed

lemma is_digit_nth: "d < 10 \<Longrightarrow> is_digit (digit_chars ! d)"
  using digit_cases [of d] by (auto simp: digit_chars_def is_digit_def)

lemma digit_value_nth: "d < 10 \<Longrightarrow> (of_char (digit_chars ! d) :: nat) - 48 = d"
  using digit_cases [of d] by (auto simp: digit_chars_def)

lemma digit_nonzero_nth: "d < 10 \<Longrightarrow> 0 < d \<Longrightarrow> digit_chars ! d \<noteq> CHR ''0''"
  using digit_cases [of d] by (auto simp: digit_chars_def)

lemma formatBits_10_small: "u < 10 \<Longrightarrow> formatBits u 10 = [digit_chars ! u]"
  by (subst formatBits.simps) simp

lemma formatBits_10_big:
  "10 \<le> u \<Longrightarrow> formatBits u 10 = formatBits (u div 10) 10 @ [digit_chars ! (u mod 10)]"
  by (subst formatBits.simps) simp

lemma formatBits_10_nonempty: "formatBits u 10 \<noteq> []"
  by (cases "u < 10") (simp_all add: formatBits_10_small formatBits_10_big)

lemma formatBits_10_digits: "list_all is_digit (formatBits u 10)"
proof (induction u rule: less_induct)
  case (less u)
  show ?case
  proof (cases "u < 10")
    case True
    then show ?thesis by (simp add: formatBits_10_small is_digit_nth)
  next
    case False
    then have "u div 10 < u" by simp
    with less False show ?thesis by (simp add: formatBits_10_big is_digit_nth)
  qed
qed

lemma formatBits_10_value: "decimal_value (formatBits u 10) = u"
proof (induction u rule: less_induct)
  case (less u)
  show ?case
  proof (cases "u < 10")
    case True
    then show ?thesis by (simp add: formatBits_10_small decimal_value_def digit_value_nth)
  next
    case False
    then have "u div 10 < u" by simp
    then have "decimal_value (formatBits (u div 10) 10) = u div 10" by (rule less)
    with False show ?thesis
      by (simp add: formatBits_10_big decimal_value_def digit_value_nth)
  qed
qed

lemma formatBits_10_hd: "0 < u \<Longrightarrow> hd (formatBits u 10) \<noteq> CHR ''0''"
proof (induction u rule: less_induct)
  case (less u)
  show ?case
  proof (cases "u < 10")
    case True
    with less.prems show ?thesis by (simp add: formatBits_10_small digit_nonzero_nth)
  next
    case False
    then have "u div 10 < u" "0 < u div 10" by (simp_all add: div_greater_zero_iff)
    then have "hd (formatBits (u div 10) 10) \<noteq> CHR ''0''" by (rule less.IH)
    with False show ?thesis
      by (simp add: formatBits_10_big formatBits_10_nonempty)
  qed
qed

lemma formatBits_10_decimal: "is_decimal_of (formatBits u 10) u"
proof -
  have "1 < length (formatBits u 10) \<longrightarrow> hd (formatBits u 10) \<noteq> CHR ''0''"
  proof (cases "u = 0")
    case True
    then show ?thesis by (simp add: formatBits_10_small)
  next
    case False
    then show ?thesis by (simp add: formatBits_10_hd)
  qed
  then show ?thesis
    by (simp add: is_decimal_of_def formatBits_10_nonempty formatBits_10_digits formatBits_10_value)
qed

lemma unat_of_nonneg_sint: "0 \<le> sint (s :: int64) \<Longrightarrow> unat s = nat (sint s)"
proof -
  assume a: "0 \<le> sint s"
  have "sint s < 2 ^ 63" using sint_less [of s] by simp
  then have "sint s < 2 ^ 64" by simp
  with a have "take_bit 64 (sint s) = sint s" by (simp add: take_bit_int_eq_self)
  then have "uint s = sint s" using uint_sint [of s] by simp
  then have "nat (uint s) = nat (sint s)" by (simp only:)
  then show ?thesis by (simp only: unat_eq_nat_uint)
qed

lemma FormatInt_nonneg: "0 \<le> sint s \<Longrightarrow> FormatInt s 10 = formatBits (nat (sint s)) 10"
proof -
  assume a: "0 \<le> sint s"
  then have "\<not> s <s 0" by (simp add: word_sless_alt)
  then show ?thesis using unat_of_nonneg_sint [OF a] by (simp add: FormatInt_def)
qed

lemma FormatInt_example: "FormatInt 1450357761 10 = ''1450357761''"
  by (simp add: FormatInt_def word_sless_alt formatBits_10_small formatBits_10_big digit_chars_def)

declare Join.simps [simp del]

lemma example_uuid_String:
  "uuid_String [5, 5, 5, 5, 5, 5, 5, 5, 5, 5, 5, 5, 5, 5, 5, 5] = ''05050505-0505-0505-0505-050505050505''"
  by (simp add: uuid_String_def hex_encode_def hex_byte_def hexdigits_def)

lemma NewEtcdMinion_example:
  "NewEtcdMinion example_libs ''Kevin'' (Inr api) = Some (example_minion api)"
proof -
  have l: "length [5, 5, 5, 5, 5, 5, 5, 5, 5, 5, 5, 5, 5, 5, 5, 5 :: 8 word] = 16" by simp
  have g: "GenerateUUID example_libs ''Kevin'' = [5, 5, 5, 5, 5, 5, 5, 5, 5, 5, 5, 5, 5, 5, 5, 5]"
    by (simp add: example_libs_def)
  show ?thesis
    unfolding NewEtcdMinion_def g
    using rootDir_of_uuid [OF l] Join_rootDir [OF l, of "''queue''"] Join_rootDir [OF l, of "''log''"]
      Join_rootDir [OF l, of "''classifier''"]
    by (simp add: example_minion_def example_uuid_String plain_def Let_def)
qed

subsection \<open>The lastseen writer\<close>

text \<open>
  Claim C10. For a minion made by \<open>NewEtcdMinion\<close> from a name whose identifier has 16
  bytes, and for every non-negative \<open>s\<close>, \<open>SetLastseen s\<close> makes one call of \<open>Set\<close>, with
  the key \<open>/gru/minion/<id>/lastseen\<close> and with a value that is the unsigned decimal
  representation of \<open>s\<close>; it returns what that call returns, and the store afterwards is
  the one that call leaves. For \<open>s = 1450357761\<close> the value is the string \<open>1450357761\<close>.
\<close>

theorem SetLastseen_writes_decimal:
  assumes m: "NewEtcdMinion L nm (Inr api) = Some m"
    and u: "length (GenerateUUID L nm) = 16"
    and s: "0 \<le> sint s"
  shows "is_decimal_of (FormatInt s 10) (nat (sint s)) \<and>
         (s = 1450357761 \<longrightarrow> FormatInt s 10 = ''1450357761'') \<and>
         (let key = ''/gru/minion/'' @ uuid_String (GenerateUUID L nm) @ ''/lastseen'';
              opts = \<lparr>PrevExistOpt = PrevIgnore, TTL = 0\<rparr>;
              r = Set api key (FormatInt s 10) opts (kv w);
              w' = snd (SetLastseen m s w)
          in fst (SetLastseen m s w) = fst r \<and> kv w' = snd r \<and>
             trace w' = trace w @ KVSet key (FormatInt s 10) opts (fst r) #
               (if fst r = None then [] else [Log ''Failed to set lastseen time'']))"
proof -
  have d: "is_decimal_of (FormatInt s 10) (nat (sint s))"
    using s by (simp add: FormatInt_nonneg formatBits_10_decimal)
  have e: "s = 1450357761 \<longrightarrow> FormatInt s 10 = ''1450357761''"
    by (simp add: FormatInt_example)
  have root: "rootDir m = ''/gru/minion/'' @ uuid_String (GenerateUUID L nm)"
    using m rootDir_of_uuid [OF u] by (auto simp: NewEtcdMinion_def Let_def)
  have api: "kapi m = api"
    using m by (auto simp: NewEtcdMinion_def Let_def)
  have key: "Join [rootDir m, ''lastseen''] =
             ''/gru/minion/'' @ uuid_String (GenerateUUID L nm) @ ''/lastseen''"
    unfolding root using Join_rootDir [OF u, of "''lastseen''"] by (simp add: plain_def)
  have w: "let key = ''/gru/minion/'' @ uuid_String (GenerateUUID L nm) @ ''/lastseen'';
              opts = \<lparr>PrevExistOpt = PrevIgnore, TTL = 0\<rparr>;
              r = Set api key (FormatInt s 10) opts (kv w);
              w' = snd (SetLastseen m s w)
          in fst (SetLastseen m s w) = fst r \<and> kv w' = snd r \<and>
             trace w' = trace w @ KVSet key (FormatInt s 10) opts (fst r) #
               (if fst r = None then [] else [Log ''Failed to set lastseen time''])"
    unfolding SetLastseen_def key kapi_Set_def api
    by (simp add: Let_def emit_def case_prod_beta)
  from d e w show ?thesis by blast
qed

text \<open>
  The scenario of the integration test, on the etcd in memory: after
  \<open>SetLastseen 1450357761\<close> of the minion named Kevin, a \<open>Get\<close> of its lastseen key
  gives \<open>1450357761\<close>.
\<close>

theorem SetLastseen_writes_decimal_witness:
  "NewEtcdMinion example_libs ''Kevin'' (Inr mem_kapi) = Some (example_minion mem_kapi) \<and>
   length (GenerateUUID example_libs ''Kevin'') = 16 \<and>
   0 \<le> sint (1450357761 :: int64) \<and>
   trace (snd (SetLastseen (example_minion mem_kapi) 1450357761 (example_world []))) =
     [KVSet ''/gru/minion/05050505-0505-0505-0505-050505050505/lastseen'' ''1450357761''
        \<lparr>PrevExistOpt = PrevIgnore, TTL = 0\<rparr> None] \<and>
   fst (mem_Get ''/gru/minion/05050505-0505-0505-0505-050505050505/lastseen''
          \<lparr>Recursive = False, Sort = False\<rparr>
          (kv (snd (SetLastseen (example_minion mem_kapi) 1450357761 (example_world []))))) =
     (Some (Response ''get''
        (EtcdNode ''/gru/minion/05050505-0505-0505-0505-050505050505/lastseen'' ''1450357761'' [])),
      None)"
proof -
  have h1: "NewEtcdMinion example_libs ''Kevin'' (Inr mem_kapi) = Some (example_minion mem_kapi)"
    by (rule NewEtcdMinion_example)
  have h2: "length (GenerateUUID example_libs ''Kevin'') = 16"
    by (simp add: example_libs_def)
  have h3: "0 \<le> sint (1450357761 :: int64)" by simp
  have g: "GenerateUUID example_libs ''Kevin'' = [5, 5, 5, 5, 5, 5, 5, 5, 5, 5, 5, 5, 5, 5, 5, 5]"
    by (simp add: example_libs_def)
  show ?thesis
    using h1 h2 h3 SetLastseen_writes_decimal [OF h1 h2 h3, of "example_world []"]
    by (simp add: g example_uuid_String Let_def example_world_def mem_kapi_def mem_Set_def
        mem_Get_def)
qed

subsection \<open>The backlog drainer on a missing queue directory\<close>

text \<open>
  Claim C1. The claim says that \<open>checkQueue\<close> returns nil when the queue directory is
  missing, and the comment in the function says that a missing directory is fine. The
  code returns the error: on the etcd in memory with an empty store, where \<open>Get\<close> of the
  queue directory fails with \<open>ErrorCodeKeyNotFound\<close>, \<open>checkQueue\<close> returns that error.
\<close>

theorem checkQueue_not_found_returns_error:
  "fst (checkQueue example_libs (example_minion mem_kapi) (example_world [])) =
     Returned (Some (EtcdError ErrorCodeKeyNotFound)) \<and>
   fst (Get mem_kapi (queueDir (example_minion mem_kapi)) \<lparr>Recursive = True, Sort = True\<rparr> []) =
     (None, Some (EtcdError ErrorCodeKeyNotFound))"
  by (simp add: checkQueue_def kapi_Get_def example_minion_def example_world_def mem_kapi_def
      mem_Get_def returns_get_error_def Let_def)


subsection \<open>The worker loops and the done signal\<close>

lemma TaskRunner_loop_never_returns: "fst (TaskRunner_loop L m sels w) \<noteq> Returned r"
  by (induction L m sels w rule: TaskRunner_loop.induct) (auto split: prod.splits outcome.splits)

lemma periodicRunner_loop_never_returns: "fst (periodicRunner_loop L m sels w) \<noteq> Returned r"
  by (induction L m sels w rule: periodicRunner_loop.induct)
     (auto simp: Let_def split: prod.splits outcome.splits)

text \<open>
  Claim C2. The claim says that the loops of \<open>TaskRunner\<close> and \<open>periodicRunner\<close> end at
  their next round once \<open>done\<close> is closed. In the code the done case of the \<open>select\<close> is
  a bare \<open>break\<close>, which leaves the \<open>select\<close> and not the \<open>for\<close> loop around it: whatever
  the scheduler chooses and however long it goes on, neither function returns.
\<close>

theorem worker_loops_never_return:
  "fst (TaskRunner L m sels w) \<noteq> Returned r \<and> fst (periodicRunner L m ticks w') \<noteq> Returned u"
  by (simp add: TaskRunner_def periodicRunner_def TaskRunner_loop_never_returns
      periodicRunner_loop_never_returns)

lemma Stop_example:
  "Stop (example_world k) =
     (Returned None, (example_world k)\<lparr>trace := [Log ''Minion is shutting down''],
        taskQueue_closed := True, done_closed := True\<rparr>)"
  by (simp add: Stop_def example_world_def emit_def Let_def)

subsection \<open>Panics\<close>

text \<open>
  Claim C3. The claim says that no expected error path panics. Two do. When \<open>Get\<close>
  fails with an \<open>etcdclient.Error\<close> other than not-found (here code 300) \<open>checkQueue\<close>
  does not return the error but reads \<open>resp.Node.Nodes\<close> of the nil response. After
  \<open>Stop\<close> the runner takes the done case, goes round again, receives nil from the closed
  task channel and writes to its field \<open>State\<close>.
\<close>

theorem panics_on_error_paths:
  "fst (checkQueue example_libs (example_minion (outage_kapi (EtcdError 300))) (example_world 0)) =
     Panicked ''nil pointer dereference'' \<and>
   fst (TaskRunner example_libs (example_minion mem_kapi) [SelDone, SelRecvClosed]
          (snd (Stop (example_world [])))) =
     Panicked ''nil pointer dereference''"
  by (simp add: checkQueue_def kapi_Get_def example_minion_def outage_kapi_def
      returns_get_error_def ErrorCodeKeyNotFound_def Let_def Stop_example TaskRunner_def
      TaskRunner_recv_def emit_def)


subsection \<open>Serve\<close>

lemma spawned_emit [simp]: "spawned (emit e w) = spawned w"
  by (simp add: emit_def)

lemma spawned_go_stmt [simp]: "spawned (go_stmt g w) = spawned w @ [g]"
  by (simp add: go_stmt_def)

lemma spawned_kapi_Set [simp]: "spawned (snd (kapi_Set m key val opts w)) = spawned w"
  by (simp add: kapi_Set_def case_prod_beta)

lemma spawned_SetName [simp]: "spawned (snd (SetName m nm w)) = spawned w"
  by (simp add: SetName_def Let_def case_prod_beta)

lemma spawned_SetLastseen [simp]: "spawned (snd (SetLastseen m s w)) = spawned w"
  by (simp add: SetLastseen_def Let_def case_prod_beta)

lemma spawned_time_Now_Unix [simp]: "spawned (snd (time_Now_Unix w)) = spawned w"
  by (simp add: time_Now_Unix_def)

text \<open>
  Claim C8. When the first \<open>SetName\<close> fails, \<open>Serve\<close> returns its error and starts no
  goroutine; when it succeeds and the first \<open>SetLastseen\<close> fails, \<open>Serve\<close> returns that
  error and starts no goroutine; when both succeed, \<open>Serve\<close> starts the five workers, in
  the order classify, backlog drain, periodic runner, task runner, task listener, and
  returns nil without waiting for them.
\<close>

theorem Serve_starts_workers_iff_writes_succeed:
  "(let r1 = SetName m (name m) w;
        r2 = SetLastseen m (fst (time_Now_Unix (snd r1))) (snd (time_Now_Unix (snd r1)))
    in (fst r1 \<noteq> None \<longrightarrow>
          Serve m w = (Returned (fst r1), snd r1) \<and> spawned (snd (Serve m w)) = spawned w) \<and>
       (fst r1 = None \<and> fst r2 \<noteq> None \<longrightarrow>
          Serve m w = (Returned (fst r2), snd r2) \<and> spawned (snd (Serve m w)) = spawned w) \<and>
       (fst r1 = None \<and> fst r2 = None \<longrightarrow>
          fst (Serve m w) = Returned None \<and>
          spawned (snd (Serve m w)) = spawned w @
            [GoClassify, GoCheckQueue, GoPeriodicRunner, GoTaskRunner, GoTaskListener]))"
  by (simp add: Serve_def Let_def case_prod_beta)

text \<open>
  An etcd that is down, one that is lost after the name has been written, and the etcd
  in memory.
\<close>

theorem Serve_starts_workers_iff_writes_succeed_witness:
  "fst (Serve (example_minion (outage_kapi (OtherError ''connection refused''))) (example_world 0)) =
     Returned (Some (OtherError ''connection refused'')) \<and>
   spawned (snd (Serve (example_minion (outage_kapi (OtherError ''connection refused''))) (example_world 0))) = [] \<and>
   fst (Serve (example_minion (outage_kapi (OtherError ''connection refused''))) (example_world 1)) =
     Returned (Some (OtherError ''connection refused'')) \<and>
   spawned (snd (Serve (example_minion (outage_kapi (OtherError ''connection refused''))) (example_world 1))) = [] \<and>
   fst (Serve (example_minion mem_kapi) (example_world [])) = Returned None \<and>
   spawned (snd (Serve (example_minion mem_kapi) (example_world []))) =
     [GoClassify, GoCheckQueue, GoPeriodicRunner, GoTaskRunner, GoTaskListener]"
  using Serve_starts_workers_iff_writes_succeed
          [of "example_minion (outage_kapi (OtherError ''connection refused''))" "example_world 0"]
        Serve_starts_workers_iff_writes_succeed
          [of "example_minion (outage_kapi (OtherError ''connection refused''))" "example_world 1"]
        Serve_starts_workers_iff_writes_succeed [of "example_minion mem_kapi" "example_world []"]
  by (simp add: Let_def SetName_def SetLastseen_def kapi_Set_def time_Now_Unix_def emit_def
      example_minion_def example_world_def outage_kapi_def mem_kapi_def mem_Set_def)


subsection \<open>The queue watcher on an event\<close>

lemma to_lower_char_idem: "to_lower_char (to_lower_char c) = to_lower_char c"
  by (simp add: to_lower_char_def)

lemma EqualFold_ToLower: "EqualFold (ToLower a) b = EqualFold a b"
  by (induction a b rule: EqualFold.induct) (simp_all add: ToLower_def to_lower_char_idem)

lemma EqualFold_iff: "EqualFold a b = equal_ignoring_case a b"
  by (induction a b rule: EqualFold.induct) (auto simp: equal_ignoring_case_def ToLower_def)

lemma delete_test: "EqualFold (ToLower a) b = equal_ignoring_case a b"
proof -
  have "EqualFold (ToLower a) b = EqualFold a b" by (rule EqualFold_ToLower)
  also have "\<dots> = equal_ignoring_case a b" by (rule EqualFold_iff)
  finally show ?thesis .
qed

lemma example_actions:
  "equal_ignoring_case ''DELETE'' ''delete''" "\<not> equal_ignoring_case ''set'' ''delete''"
  by (simp_all add: equal_ignoring_case_def ToLower_def) code_simp

lemma TaskListener_event_delete:
  "equal_ignoring_case (Action resp) ''delete'' \<Longrightarrow> TaskListener_event L m resp w = (Returned (), w)"
  by (simp add: TaskListener_event_def delete_test)

lemma TaskListener_event_task:
  assumes "\<not> equal_ignoring_case (Action resp) ''delete''"
    and "EtcdUnmarshalTask L (Node resp) = (Some t, None)"
    and "\<not> taskQueue_closed w"
  shows "TaskListener_event L m resp w =
           (Returned (),
            w\<lparr>kv := snd (Delete (kapi m) (Key (Node resp)) (kv w)),
              trace := trace w @ [KVDelete (Key (Node resp)) (fst (Delete (kapi m) (Key (Node resp)) (kv w))),
                                  Log ''Received task'', ChanSend (Some t)]\<rparr>)"
  using assms
  by (simp add: TaskListener_event_def delete_test Let_def kapi_Delete_def chan_send_def emit_def
      case_prod_beta)

lemma TaskListener_event_invalid:
  assumes "\<not> equal_ignoring_case (Action resp) ''delete''"
    and "EtcdUnmarshalTask L (Node resp) = (x, Some e)"
  shows "TaskListener_event L m resp w =
           (Returned (),
            w\<lparr>kv := snd (Delete (kapi m) (Key (Node resp)) (kv w)),
              trace := trace w @ [KVDelete (Key (Node resp)) (fst (Delete (kapi m) (Key (Node resp)) (kv w))),
                                  Log ''Received invalid task'']\<rparr>)"
  using assms
  by (simp add: TaskListener_event_def delete_test Let_def kapi_Delete_def emit_def case_prod_beta)

lemma TaskListener_event_nil:
  assumes "\<not> equal_ignoring_case (Action resp) ''delete''"
    and "EtcdUnmarshalTask L (Node resp) = (None, None)"
  shows "TaskListener_event L m resp w =
           (Panicked ''nil pointer dereference'',
            w\<lparr>kv := snd (Delete (kapi m) (Key (Node resp)) (kv w)),
              trace := trace w @ [KVDelete (Key (Node resp)) (fst (Delete (kapi m) (Key (Node resp)) (kv w)))]\<rparr>)"
  using assms
  by (simp add: TaskListener_event_def delete_test Let_def kapi_Delete_def emit_def case_prod_beta)

text \<open>
  One round of the watcher's loop on an event, where it does not panic. When the action
  equals \<open>delete\<close> under case-insensitive comparison, the round does nothing but reset the
  backoff: no call of etcd, no send. Otherwise the round deletes the node of the event;
  then, when the payload decodes to a task, it logs and sends the task on the task
  channel (which is taken to be open), and when decoding fails it logs and sends
  nothing. In each case the loop goes on with the next input.
\<close>

lemma TaskListener_round:
  "(equal_ignoring_case (Action resp) ''delete'' \<longrightarrow>
      TaskListener_loop L m b (WatchEvent resp # ins) w = TaskListener_loop L m (backoff_Reset L b) ins w) \<and>
   (\<not> equal_ignoring_case (Action resp) ''delete'' \<longrightarrow>
      (let d = Delete (kapi m) (Key (Node resp)) (kv w);
           w1 = w\<lparr>kv := snd d, trace := trace w @ [KVDelete (Key (Node resp)) (fst d)]\<rparr>
       in (\<forall>t. EtcdUnmarshalTask L (Node resp) = (Some t, None) \<and> \<not> taskQueue_closed w \<longrightarrow>
              TaskListener_loop L m b (WatchEvent resp # ins) w =
                TaskListener_loop L m (backoff_Reset L b) ins
                  (w1\<lparr>trace := trace w1 @ [Log ''Received task'', ChanSend (Some t)]\<rparr>)) \<and>
          (\<forall>x e. EtcdUnmarshalTask L (Node resp) = (x, Some e) \<longrightarrow>
              TaskListener_loop L m b (WatchEvent resp # ins) w =
                TaskListener_loop L m (backoff_Reset L b) ins
                  (w1\<lparr>trace := trace w1 @ [Log ''Received invalid task'']\<rparr>))))"
proof (intro conjI impI)
  assume "equal_ignoring_case (Action resp) ''delete''"
  then show "TaskListener_loop L m b (WatchEvent resp # ins) w = TaskListener_loop L m (backoff_Reset L b) ins w"
    by (simp add: TaskListener_event_delete)
next
  assume n: "\<not> equal_ignoring_case (Action resp) ''delete''"
  show "let d = Delete (kapi m) (Key (Node resp)) (kv w);
           w1 = w\<lparr>kv := snd d, trace := trace w @ [KVDelete (Key (Node resp)) (fst d)]\<rparr>
       in (\<forall>t. EtcdUnmarshalTask L (Node resp) = (Some t, None) \<and> \<not> taskQueue_closed w \<longrightarrow>
              TaskListener_loop L m b (WatchEvent resp # ins) w =
                TaskListener_loop L m (backoff_Reset L b) ins
                  (w1\<lparr>trace := trace w1 @ [Log ''Received task'', ChanSend (Some t)]\<rparr>)) \<and>
          (\<forall>x e. EtcdUnmarshalTask L (Node resp) = (x, Some e) \<longrightarrow>
              TaskListener_loop L m b (WatchEvent resp # ins) w =
                TaskListener_loop L m (backoff_Reset L b) ins
                  (w1\<lparr>trace := trace w1 @ [Log ''Received invalid task'']\<rparr>))"
    unfolding Let_def
  proof (intro conjI allI impI)
    fix t
    assume "EtcdUnmarshalTask L (Node resp) = (Some t, None) \<and> \<not> taskQueue_closed w"
    then show "TaskListener_loop L m b (WatchEvent resp # ins) w =
                TaskListener_loop L m (backoff_Reset L b) ins
                  (w\<lparr>kv := snd (Delete (kapi m) (Key (Node resp)) (kv w)),
                     trace := trace w @ [KVDelete (Key (Node resp)) (fst (Delete (kapi m) (Key (Node resp)) (kv w)))]\<rparr>
                   \<lparr>trace := trace (w\<lparr>kv := snd (Delete (kapi m) (Key (Node resp)) (kv w)),
                     trace := trace w @ [KVDelete (Key (Node resp)) (fst (Delete (kapi m) (Key (Node resp)) (kv w)))]\<rparr>) @
                       [Log ''Received task'', ChanSend (Some t)]\<rparr>)"
      using n by (simp add: TaskListener_event_task)
  next
    fix x e
    assume "EtcdUnmarshalTask L (Node resp) = (x, Some e)"
    then show "TaskListener_loop L m b (WatchEvent resp # ins) w =
                TaskListener_loop L m (backoff_Reset L b) ins
                  (w\<lparr>kv := snd (Delete (kapi m) (Key (Node resp)) (kv w)),
                     trace := trace w @ [KVDelete (Key (Node resp)) (fst (Delete (kapi m) (Key (Node resp)) (kv w)))]\<rparr>
                   \<lparr>trace := trace (w\<lparr>kv := snd (Delete (kapi m) (Key (Node resp)) (kv w)),
                     trace := trace w @ [KVDelete (Key (Node resp)) (fst (Delete (kapi m) (Key (Node resp)) (kv w)))]\<rparr>) @
                       [Log ''Received invalid task'']\<rparr>)"
      using n by (simp add: TaskListener_event_invalid)
  qed
qed

text \<open>
  Claim C9. The claim says that the watcher, on every event that is not a delete event,
  deletes the node and then either submits the task or, on a codec error, logs and
  drops it. \<open>EtcdUnmarshalTask\<close> gives \<open>json.Unmarshal\<close> the address of the task pointer,
  so the payload \<open>null\<close> sets the pointer to nil and is no error. On the etcd in memory
  with this payload in the queue, the watcher deletes the node, takes the decoding for a
  success, and then reads \<open>t.TaskID\<close> of the nil task for its log line: it panics, and
  nothing is submitted and nothing is dropped with a log line.
\<close>

theorem watcher_panics_on_null_payload:
  "EtcdUnmarshalTask example_libs (EtcdNode example_queue_key ''null'' []) = (None, None) \<and>
   TaskListener example_libs (example_minion mem_kapi)
     [WatchEvent (Response ''set'' (EtcdNode example_queue_key ''null'' []))]
     (example_world [(example_queue_key, ''null'')]) =
     (Panicked ''nil pointer dereference'',
      (example_world [])\<lparr>trace :=
         [Log ''Task listener is watching'', KVDelete example_queue_key None]\<rparr>)"
proof -
  have u: "EtcdUnmarshalTask example_libs (EtcdNode example_queue_key ''null'' []) = (None, None)"
    by (simp add: EtcdUnmarshalTask_def example_libs_def)
  have n: "\<not> equal_ignoring_case (Action (Response ''set'' (EtcdNode example_queue_key ''null'' [])))
             ''delete''"
    by (simp add: example_actions)
  have u': "EtcdUnmarshalTask example_libs
              (Node (Response ''set'' (EtcdNode example_queue_key ''null'' []))) = (None, None)"
    using u by simp
  let ?w0 = "emit (Log ''Task listener is watching'') (example_world [(example_queue_key, ''null'')])"
  have "TaskListener_event example_libs (example_minion mem_kapi)
          (Response ''set'' (EtcdNode example_queue_key ''null'' [])) ?w0 =
        (Panicked ''nil pointer dereference'',
         (example_world [])\<lparr>trace :=
            [Log ''Task listener is watching'', KVDelete example_queue_key None]\<rparr>)"
    unfolding TaskListener_event_nil [OF n u']
    by (simp add: emit_def example_minion_def example_world_def mem_kapi_def mem_Delete_def)
  then have "TaskListener example_libs (example_minion mem_kapi)
     [WatchEvent (Response ''set'' (EtcdNode example_queue_key ''null'' []))]
     (example_world [(example_queue_key, ''null'')]) =
     (Panicked ''nil pointer dereference'',
      (example_world [])\<lparr>trace :=
         [Log ''Task listener is watching'', KVDelete example_queue_key None]\<rparr>)"
    by (simp add: TaskListener_def Let_def)
  with u show ?thesis by simp
qed

subsection \<open>Sends on the task channel\<close>












subsection \<open>The delays of the queue watcher\<close>











subsection \<open>The records the runner writes to the log\<close>




lemma new_events_append: "trace w' = trace w @ evs \<Longrightarrow> new_events w w' = evs"
  by (simp add: new_events_def)





lemma saved_Cons: "saved L key (a # ts) = saved L key [a] @ saved L key ts"
  by (simp add: saved_def)


















end
